theory Spec2Isabelle
  imports Main
begin

section \<open>Boot loader entry parsing (package uapi, file entry.go)\<close>

text \<open>
  A Go \<^verbatim>\<open>string\<close> and a Go \<^verbatim>\<open>[]byte\<close> are both sequences of bytes, and the conversion
  \<^verbatim>\<open>string(b)\<close> keeps the bytes. An Isabelle \<^typ>\<open>char\<close> is one byte, so both are
  \<^typ>\<open>char list\<close> here. A nil slice and an empty slice are the same empty list.
\<close>

type_synonym bytes = "char list"

subsection \<open>Errors, panics and the file tree\<close>

text \<open>
  The error values of the package. \<open>FsError\<close> is whatever error the file tree returns
  (its message is opaque to the parsers). The others are the values built with
  \<^verbatim>\<open>fmt.Errorf\<close> in entry.go, with the values they format, and \<^verbatim>\<open>bufio.ErrTooLong\<close>,
  the one error a \<^verbatim>\<open>bufio.Scanner\<close> over a string reader can report.
\<close>

datatype error =
    FsError string
  | ErrReadingEntryFile error
  | ErrParsingEntryLine error string
  | ErrNoTitle
  | ErrMissingBraces
  | ErrLoadingLinux string error
  | ErrLoadingInitrd string error
  | ErrTooLong

text \<open>
  A function either returns or panics; the only panic in the file is the run-time
  error of indexing a slice out of range (\<open>IndexOutOfRange i n\<close>: index \<open>i\<close> in a
  slice of length \<open>n\<close>).
\<close>

datatype panic = IndexOutOfRange nat nat

datatype 'a outcome = Return 'a | Panic panic

text \<open>
  The file tree \<^verbatim>\<open>fs.FS\<close> is used through \<^verbatim>\<open>fs.ReadFile\<close> only, which returns a byte
  slice and an error. Both are kept: Go does not promise a nil slice beside a non-nil
  error.
\<close>

type_synonym FS = "string \<Rightarrow> bytes \<times> error option"

definition ReadFile :: "FS \<Rightarrow> string \<Rightarrow> bytes \<times> error option" where
  "ReadFile fsys name = fsys name"

subsection \<open>The functions of package strings that the file calls\<close>

text \<open>\<^verbatim>\<open>strings.ReplaceAll(s, old, new)\<close> for one-byte \<open>old\<close> and \<open>new\<close>.\<close>

definition ReplaceAll :: "string \<Rightarrow> char \<Rightarrow> char \<Rightarrow> string" where
  "ReplaceAll s old new = map (\<lambda>c. if c = old then new else c) s"

text \<open>\<^verbatim>\<open>strings.Contains\<close> and \<^verbatim>\<open>strings.Count\<close> for a one-byte substring;
  \<^verbatim>\<open>strings.HasPrefix\<close> for a one-byte prefix.\<close>

definition Contains :: "string \<Rightarrow> char \<Rightarrow> bool" where
  "Contains s c = (c \<in> set s)"

definition Count :: "string \<Rightarrow> char \<Rightarrow> int" where
  "Count s c = int (count_list s c)"

definition HasPrefix :: "string \<Rightarrow> char \<Rightarrow> bool" where
  "HasPrefix s c = (case s of [] \<Rightarrow> False | a # _ \<Rightarrow> a = c)"

text \<open>\<^verbatim>\<open>strings.SplitN(s, sep, 2)\<close> for a one-byte separator: one element when the
  separator does not occur, otherwise the text before its first occurrence and the
  text after it.\<close>

definition SplitN2 :: "string \<Rightarrow> char \<Rightarrow> string list" where
  "SplitN2 s sep =
     (if sep \<in> set s
      then [takeWhile (\<lambda>c. c \<noteq> sep) s, tl (dropWhile (\<lambda>c. c \<noteq> sep) s)]
      else [s])"

text \<open>\<^verbatim>\<open>strings.Split(s, sep)\<close> for a one-byte separator: the empty string gives one
  empty element.\<close>

fun Split :: "string \<Rightarrow> char \<Rightarrow> string list" where
  "Split [] sep = [[]]"
| "Split (c # s) sep =
     (if c = sep then [] # Split s sep
      else (case Split s sep of [] \<Rightarrow> [[c]] | l # ls \<Rightarrow> (c # l) # ls))"

text \<open>\<^verbatim>\<open>strings.Join\<close>.\<close>

fun Join :: "string list \<Rightarrow> string \<Rightarrow> string" where
  "Join [] sep = []"
| "Join [x] sep = x"
| "Join (x # y # ys) sep = x @ sep @ Join (y # ys) sep"

text \<open>\<^verbatim>\<open>strings.Lines\<close>: the lines of the string, each with its terminating newline;
  the last one has none when the string does not end in a newline; the empty string
  has no line.\<close>

fun Lines :: "string \<Rightarrow> string list" where
  "Lines [] = []"
| "Lines (c # s) =
     (if c = CHR 0x0A then [c] # Lines s
      else (case Lines s of [] \<Rightarrow> [[c]] | l # ls \<Rightarrow> (c # l) # ls))"

text \<open>\<^verbatim>\<open>strings.Trim(s, cutset)\<close> for an ASCII cutset: the bytes of the cutset are
  removed from the right end, then from the left end.\<close>

definition Trim :: "string \<Rightarrow> string \<Rightarrow> string" where
  "Trim s cutset =
     dropWhile (\<lambda>c. c \<in> set cutset) (rev (dropWhile (\<lambda>c. c \<in> set cutset) (rev s)))"

text \<open>
  White space as \<^verbatim>\<open>unicode.IsSpace\<close> defines it: the code points U+0009 to U+000D,
  U+0020, U+0085, U+00A0, U+1680, U+2000 to U+200A, U+2028, U+2029, U+202F, U+205F
  and U+3000. In the UTF-8 text that Go strings hold, they are the following one,
  two and three byte sequences. A byte sequence that is not valid UTF-8 decodes to
  U+FFFD, byte by byte, which is not white space.
\<close>

definition asciiSpace :: "char \<Rightarrow> bool" where
  "asciiSpace c =
     (c = CHR 0x09 \<or> c = CHR 0x0A \<or> c = CHR 0x0B \<or> c = CHR 0x0C \<or> c = CHR 0x0D \<or> c = CHR 0x20)"

definition isSpace2 :: "char \<Rightarrow> char \<Rightarrow> bool" where
  "isSpace2 a b = (a = CHR 0xC2 \<and> (b = CHR 0x85 \<or> b = CHR 0xA0))"

definition isSpace3 :: "char \<Rightarrow> char \<Rightarrow> char \<Rightarrow> bool" where
  "isSpace3 a b c =
     ((a = CHR 0xE1 \<and> b = CHR 0x9A \<and> c = CHR 0x80) \<or>
      (a = CHR 0xE2 \<and> b = CHR 0x80 \<and>
         (c = CHR 0x80 \<or> c = CHR 0x81 \<or> c = CHR 0x82 \<or> c = CHR 0x83 \<or> c = CHR 0x84 \<or>
          c = CHR 0x85 \<or> c = CHR 0x86 \<or> c = CHR 0x87 \<or> c = CHR 0x88 \<or> c = CHR 0x89 \<or>
          c = CHR 0x8A \<or> c = CHR 0xA8 \<or> c = CHR 0xA9 \<or> c = CHR 0xAF)) \<or>
      (a = CHR 0xE2 \<and> b = CHR 0x81 \<and> c = CHR 0x9F) \<or>
      (a = CHR 0xE3 \<and> b = CHR 0x80 \<and> c = CHR 0x80))"

text \<open>The width in bytes of the white space rune that the string starts with (that
  \<^verbatim>\<open>utf8.DecodeRuneInString\<close> returns), 0 when it starts with none.\<close>

definition leadingSpace :: "string \<Rightarrow> nat" where
  "leadingSpace s =
     (case s of
        [] \<Rightarrow> 0
      | a # s1 \<Rightarrow>
          if asciiSpace a then 1
          else (case s1 of
                  [] \<Rightarrow> 0
                | b # s2 \<Rightarrow>
                    if isSpace2 a b then 2
                    else (case s2 of [] \<Rightarrow> 0 | c # _ \<Rightarrow> if isSpace3 a b c then 3 else 0)))"

text \<open>The width of the white space rune that the string ends with (that
  \<^verbatim>\<open>utf8.DecodeLastRuneInString\<close> returns), 0 when it ends with none; the argument
  is the string reversed.\<close>

definition trailingSpace :: "string \<Rightarrow> nat" where
  "trailingSpace r =
     (case r of
        [] \<Rightarrow> 0
      | c # r1 \<Rightarrow>
          if asciiSpace c then 1
          else (case r1 of
                  [] \<Rightarrow> 0
                | b # r2 \<Rightarrow>
                    if isSpace2 b c then 2
                    else (case r2 of [] \<Rightarrow> 0 | a # _ \<Rightarrow> if isSpace3 a b c then 3 else 0)))"

text \<open>\<^verbatim>\<open>strings.TrimLeftFunc(s, unicode.IsSpace)\<close>.\<close>

function TrimLeftSpace :: "string \<Rightarrow> string" where
  "TrimLeftSpace s =
     (if leadingSpace s = 0 then s else TrimLeftSpace (drop (leadingSpace s) s))"
  by pat_completeness auto
termination
proof (relation "measure length")
  show "wf (measure length)" by simp
next
  fix s :: string
  assume "leadingSpace s \<noteq> 0"
  moreover have "leadingSpace s \<le> length s"
    by (simp add: leadingSpace_def split: list.splits)
  ultimately show "(drop (leadingSpace s) s, s) \<in> measure length" by simp
qed

text \<open>\<^verbatim>\<open>strings.TrimRightFunc(s, unicode.IsSpace)\<close>, on the reversed string.\<close>

function TrimRightSpace_rev :: "string \<Rightarrow> string" where
  "TrimRightSpace_rev r =
     (if trailingSpace r = 0 then r else TrimRightSpace_rev (drop (trailingSpace r) r))"
  by pat_completeness auto
termination
proof (relation "measure length")
  show "wf (measure length)" by simp
next
  fix r :: string
  assume "trailingSpace r \<noteq> 0"
  moreover have "trailingSpace r \<le> length r"
    by (simp add: trailingSpace_def split: list.splits)
  ultimately show "(drop (trailingSpace r) r, r) \<in> measure length" by simp
qed

text \<open>\<^verbatim>\<open>strings.TrimSpace\<close>: leading white space runes are removed, then trailing
  ones. (Its ASCII fast path computes the same string.)\<close>

definition TrimSpace :: "string \<Rightarrow> string" where
  "TrimSpace s = rev (TrimRightSpace_rev (rev (TrimLeftSpace s)))"

text \<open>
  \<^verbatim>\<open>strings.Fields\<close>: the maximal runs of runes that are not white space. The loop
  of \<^verbatim>\<open>FieldsFunc\<close> walks the runes of the string; \<open>cur\<close> is the field being
  collected, if any. A rune that is not white space is taken here one byte at a
  time: the bytes after its first are continuation bytes (0x80 to 0xBF), and no
  white space rune starts with one.
\<close>

function Fields_loop :: "string option \<Rightarrow> string \<Rightarrow> string list" where
  "Fields_loop cur s =
     (if s = [] then (case cur of None \<Rightarrow> [] | Some f \<Rightarrow> [f])
      else if leadingSpace s \<noteq> 0
      then (case cur of
              None \<Rightarrow> Fields_loop None (drop (leadingSpace s) s)
            | Some f \<Rightarrow> f # Fields_loop None (drop (leadingSpace s) s))
      else Fields_loop (Some ((case cur of None \<Rightarrow> [] | Some f \<Rightarrow> f) @ [hd s])) (tl s))"
  by pat_completeness auto
termination
proof (relation "measure (\<lambda>(cur, s). length s)")
  show "wf (measure (\<lambda>(cur, s). length s))" by simp
next
  fix cur :: "string option" and s :: string
  assume "s \<noteq> []" "leadingSpace s \<noteq> 0" "cur = None"
  then show "((None, drop (leadingSpace s) s), cur, s) \<in> measure (\<lambda>(cur, s). length s)"
    by simp
next
  fix cur :: "string option" and s :: string and f :: string
  assume "s \<noteq> []" "leadingSpace s \<noteq> 0" "cur = Some f"
  then show "((None, drop (leadingSpace s) s), cur, s) \<in> measure (\<lambda>(cur, s). length s)"
    by simp
next
  fix cur :: "string option" and s :: string
  assume "s \<noteq> []" "\<not> leadingSpace s \<noteq> 0"
  then show "((Some ((case cur of None \<Rightarrow> [] | Some f \<Rightarrow> f) @ [hd s]), tl s), cur, s)
               \<in> measure (\<lambda>(cur, s). length s)"
    by simp
qed

definition Fields :: "string \<Rightarrow> string list" where
  "Fields s = Fields_loop None s"

subsection \<open>The scanner of package bufio\<close>

text \<open>
  \<^verbatim>\<open>bufio.NewScanner\<close> over a \<^verbatim>\<open>strings.Reader\<close>, with the default split function
  \<^verbatim>\<open>ScanLines\<close>: the tokens are the lines without their newline and without one
  carriage return before it; text after the last newline is a last token when it is
  not empty. The buffer holds \<^verbatim>\<open>MaxScanTokenSize\<close> bytes at most: when a line does
  not end within them, \<^verbatim>\<open>Scan\<close> returns false and \<^verbatim>\<open>Err\<close> returns
  \<^verbatim>\<open>ErrTooLong\<close>; the lines before it have been delivered. \<open>scanLines\<close> is the
  list of tokens that the calls of \<^verbatim>\<open>Scan\<close> deliver, with the final \<^verbatim>\<open>Err\<close>.
\<close>

definition MaxScanTokenSize :: nat where
  "MaxScanTokenSize = 64 * 1024"

definition dropCR :: "string \<Rightarrow> string" where
  "dropCR s = (if s \<noteq> [] \<and> last s = CHR 0x0D then butlast s else s)"

definition scanLines :: "string \<Rightarrow> string list \<times> error option" where
  "scanLines s =
     (let ls = Split s (CHR 0x0A);
          ls' = (if last ls = [] then butlast ls else ls);
          ok = takeWhile (\<lambda>l. length l < MaxScanTokenSize) ls'
      in (map dropCR ok, if length ok < length ls' then Some ErrTooLong else None))"

subsection \<open>The three regular expressions\<close>

text \<open>
  In the syntax of package regexp, \<^verbatim>\<open>\s\<close> is one of tab, newline, form feed,
  carriage return and space, and a negated class such as \<^verbatim>\<open>[^']\<close> matches every
  rune but the one excluded, newline and U+FFFD (a byte that is not UTF-8) included.
  The three expressions of the file leave the matcher no choice: \<^verbatim>\<open>\s*\<close> and
  \<^verbatim>\<open>\s+\<close> are followed by a byte that is not white space, \<^verbatim>\<open>[^']+\<close> and
  \<^verbatim>\<open>[^}]*\<close> by the byte they exclude. So each is matched by one pass over the bytes.
\<close>

definition reSpace :: "char \<Rightarrow> bool" where
  "reSpace c = (c = CHR 0x09 \<or> c = CHR 0x0A \<or> c = CHR 0x0C \<or> c = CHR 0x0D \<or> c = CHR 0x20)"

text \<open>\<^verbatim>\<open>menuentry\s+'([^']+)'\<close> matched at the start of \<open>s\<close>: the text of group 1 when
  it matches there.\<close>

definition titleRe_at :: "string \<Rightarrow> string option" where
  "titleRe_at s =
     (if take 9 s = ''menuentry''
      then (let r = drop 9 s; q = dropWhile reSpace r
            in if length q = length r then None
               else (case q of
                       [] \<Rightarrow> None
                     | c # t \<Rightarrow>
                         if c \<noteq> CHR 0x27 then None
                         else (let name = takeWhile (\<lambda>x. x \<noteq> CHR 0x27) t
                               in if name = [] \<or> length name = length t then None
                                  else Some name)))
      else None)"

text \<open>\<^verbatim>\<open>menuentryStart.MatchString(line)\<close>, for
  \<^verbatim>\<open>^\s*menuentry\s+'([^']+)'\<close>: the expression is anchored at the start of the
  text.\<close>

definition menuentryStart_MatchString :: "string \<Rightarrow> bool" where
  "menuentryStart_MatchString line = (titleRe_at (dropWhile reSpace line) \<noteq> None)"

text \<open>\<^verbatim>\<open>titleRe.FindStringSubmatch(s)\<close>: the leftmost match; \<open>None\<close> is the nil
  result, \<open>Some t\<close> a result whose element 1 is \<open>t\<close>.\<close>

fun titleRe_FindStringSubmatch :: "string \<Rightarrow> string option" where
  "titleRe_FindStringSubmatch [] = None"
| "titleRe_FindStringSubmatch (c # s) =
     (case titleRe_at (c # s) of
        Some t \<Rightarrow> Some t
      | None \<Rightarrow> titleRe_FindStringSubmatch s)"

text \<open>\<^verbatim>\<open>bodyRe.FindStringSubmatch(s)\<close>, for \<^verbatim>\<open>\{([^}]*)\}\<close>: the text between the
  first opening brace and the first closing brace after it.\<close>

definition bodyRe_FindStringSubmatch :: "string \<Rightarrow> string option" where
  "bodyRe_FindStringSubmatch s =
     (case dropWhile (\<lambda>x. x \<noteq> CHR ''{'') s of
        [] \<Rightarrow> None
      | _ # t \<Rightarrow>
          (let b = takeWhile (\<lambda>x. x \<noteq> CHR ''}'') t
           in if length b = length t then None else Some b))"

subsection \<open>ExtractGrubMenuentries\<close>

text \<open>The local variables of the function that the loop changes.\<close>

record extract_state =
  entries :: "string list"
  collecting :: bool
  braceLevel :: int
  current :: "string list"

definition extract_init :: extract_state where
  "extract_init = \<lparr>entries = [], collecting = False, braceLevel = 0, current = []\<rparr>"

text \<open>The body of the loop, for one line.\<close>

definition extract_step :: "extract_state \<Rightarrow> string \<Rightarrow> extract_state" where
  "extract_step st line =
     (if \<not> collecting st
      then (if menuentryStart_MatchString line
            then (let st1 = st\<lparr>collecting := True, braceLevel := 0, current := [line]\<rparr>
                  in if Contains line (CHR ''{'')
                     then (let st2 = st1\<lparr>braceLevel := braceLevel st1 + 1\<rparr>
                           in if Count line (CHR ''}'') > 0
                              then st2\<lparr>braceLevel := braceLevel st2 - Count line (CHR ''}'')\<rparr>
                              else st2)
                     else st1)
            else st)
      else (let st1 = st\<lparr>current := current st @ [line]\<rparr>;
                st2 = st1\<lparr>braceLevel := braceLevel st1 + Count line (CHR ''{'')\<rparr>;
                st3 = st2\<lparr>braceLevel := braceLevel st2 - Count line (CHR ''}'')\<rparr>
            in if braceLevel st3 = 0
               then st3\<lparr>entries := entries st3 @ [Join (current st3) [CHR 0x0A]],
                        collecting := False, current := []\<rparr>
               else st3))"

fun extract_loop :: "extract_state \<Rightarrow> string list \<Rightarrow> extract_state" where
  "extract_loop st [] = st"
| "extract_loop st (line # lines) = extract_loop (extract_step st line) lines"

definition ExtractGrubMenuentries :: "string \<Rightarrow> string list \<times> error option" where
  "ExtractGrubMenuentries data =
     (entries (extract_loop extract_init (Split data (CHR 0x0A))), None)"

subsection \<open>The entry and the file loader\<close>

text \<open>
  The struct \<^verbatim>\<open>Entry\<close>. Its unexported field \<^verbatim>\<open>fsys\<close> is set when the entry is
  created and never assigned again; the methods below take the file tree as their
  first argument instead.
\<close>

record Entry =
  Title :: string
  Linux :: bytes
  Initrd :: bytes
  Options :: string
  parsed :: string
  ignored :: string

definition new_Entry :: Entry where
  "new_Entry = \<lparr>Title = [], Linux = [], Initrd = [], Options = [], parsed = [], ignored = []\<rparr>"

definition loadKeyValue :: "FS \<Rightarrow> string \<Rightarrow> bytes \<times> error option" where
  "loadKeyValue fsys v = ReadFile fsys (ReplaceAll v (CHR ''/'') (CHR 0x5C))"

subsection \<open>The parser of Type 1 entries\<close>

text \<open>
  \<^verbatim>\<open>parseKey\<close> changes the entry in place and returns an error: the model returns the
  entry as the method leaves it, and the error. The assignment
  \<^verbatim>\<open>e.Linux, err = e.loadKeyValue(v)\<close> stores the bytes before the error is tested.
\<close>

definition parseKey :: "FS \<Rightarrow> Entry \<Rightarrow> string \<Rightarrow> Entry \<times> error option" where
  "parseKey fsys e line =
     (case SplitN2 line (CHR '' '') of
        [k, r] \<Rightarrow>
          (let v = TrimSpace (Trim r [CHR 0x0A, CHR 0x0D])
           in if k = ''title''
              then (e\<lparr>Title := v, parsed := parsed e @ line\<rparr>, None)
              else if k = ''linux''
              then (case loadKeyValue fsys v of
                      (d, Some err) \<Rightarrow> (e\<lparr>Linux := d\<rparr>, Some err)
                    | (d, None) \<Rightarrow> (e\<lparr>Linux := d, parsed := parsed e @ line\<rparr>, None))
              else if k = ''initrd''
              then (case loadKeyValue fsys v of
                      (initrd, Some err) \<Rightarrow> (e, Some err)
                    | (initrd, None) \<Rightarrow>
                        (e\<lparr>Initrd := Initrd e @ initrd, parsed := parsed e @ line\<rparr>, None))
              else if k = ''options''
              then (e\<lparr>Options := Options e @ v, parsed := parsed e @ line\<rparr>, None)
              else (e\<lparr>ignored := ignored e @ line\<rparr>, None))
      | _ \<Rightarrow> (e, None))"

text \<open>The methods \<^verbatim>\<open>String\<close> and \<^verbatim>\<open>Ignored\<close> of the entry.\<close>

definition Entry_String :: "Entry \<Rightarrow> string" where
  "Entry_String e = parsed e"

definition Entry_Ignored :: "Entry \<Rightarrow> string" where
  "Entry_Ignored e = ignored e"

text \<open>The loop of \<^verbatim>\<open>LoadEntry\<close> over the lines: it stops at the first line that
  \<^verbatim>\<open>parseKey\<close> fails on, with the error that \<^verbatim>\<open>LoadEntry\<close> returns.\<close>

fun LoadEntry_loop :: "FS \<Rightarrow> Entry \<Rightarrow> string list \<Rightarrow> error + Entry" where
  "LoadEntry_loop fsys e [] = Inr e"
| "LoadEntry_loop fsys e (line # lines) =
     (case parseKey fsys e line of
        (e', Some err) \<Rightarrow> Inl (ErrParsingEntryLine err line)
      | (e', None) \<Rightarrow> LoadEntry_loop fsys e' lines)"

text \<open>\<^verbatim>\<open>LoadEntry\<close> returns a pointer to an entry, or nil, and an error, or nil.\<close>

definition LoadEntry :: "FS \<Rightarrow> string \<Rightarrow> Entry option \<times> error option" where
  "LoadEntry fsys path =
     (case ReadFile fsys path of
        (entry, Some err) \<Rightarrow> (None, Some (ErrReadingEntryFile err))
      | (entry, None) \<Rightarrow>
          (case LoadEntry_loop fsys new_Entry (Lines entry) of
             Inl err \<Rightarrow> (None, Some err)
           | Inr e \<Rightarrow> (Some e, None)))"

subsection \<open>The parser of GRUB entries\<close>

text \<open>The loop over \<^verbatim>\<open>fields[1:]\<close> of an \<^verbatim>\<open>initrd\<close> line.\<close>

fun initrd_loop :: "FS \<Rightarrow> Entry \<Rightarrow> string list \<Rightarrow> error + Entry" where
  "initrd_loop fsys e [] = Inr e"
| "initrd_loop fsys e (p # ps) =
     (case loadKeyValue fsys p of
        (initrd, Some err) \<Rightarrow> Inl (ErrLoadingInitrd p err)
      | (initrd, None) \<Rightarrow> initrd_loop fsys (e\<lparr>Initrd := Initrd e @ initrd\<rparr>) ps)"

text \<open>
  The body of the loop over the scanned lines, for the token \<open>text\<close>: \<open>Inl\<close> is a
  return from \<^verbatim>\<open>LoadGrubEntry\<close> with that error, \<open>Inr\<close> the entry at the end of the
  iteration (also after a \<^verbatim>\<open>continue\<close>). The default case of the switch has no
  \<^verbatim>\<open>continue\<close>: control reaches the statement after the switch.
\<close>

definition grub_line :: "FS \<Rightarrow> Entry \<Rightarrow> string \<Rightarrow> error + Entry" where
  "grub_line fsys e text =
     (let line = TrimSpace text
      in if line = [] \<or> HasPrefix line (CHR ''#'') then Inr e
         else (case Fields line of
                 [] \<Rightarrow> Inr e
               | f0 # rest \<Rightarrow>
                   if f0 = ''linux''
                   then (case rest of
                           [] \<Rightarrow> Inr e
                         | kernel' # opts \<Rightarrow>
                             (case loadKeyValue fsys kernel' of
                                (data, Some err) \<Rightarrow> Inl (ErrLoadingLinux kernel' err)
                              | (data, None) \<Rightarrow>
                                  (let e1 = e\<lparr>Linux := data\<rparr>;
                                       e2 = (if length (f0 # rest) > 2
                                             then e1\<lparr>Options := Join opts '' ''\<rparr>
                                             else e1)
                                   in Inr (e2\<lparr>parsed := parsed e2 @ line @ [CHR 0x0A]\<rparr>))))
                   else if f0 = ''initrd''
                   then (case rest of
                           [] \<Rightarrow> Inr e
                         | _ # _ \<Rightarrow>
                             (case initrd_loop fsys e rest of
                                Inl err \<Rightarrow> Inl err
                              | Inr e1 \<Rightarrow> Inr (e1\<lparr>parsed := parsed e1 @ line @ [CHR 0x0A]\<rparr>)))
                   else (let e1 = e\<lparr>ignored := ignored e @ line @ [CHR 0x0A]\<rparr>
                         in Inr (e1\<lparr>parsed := parsed e1 @ line @ [CHR 0x0A]\<rparr>))))"

fun grub_loop :: "FS \<Rightarrow> Entry \<Rightarrow> string list \<Rightarrow> error + Entry" where
  "grub_loop fsys e [] = Inr e"
| "grub_loop fsys e (text # texts) =
     (case grub_line fsys e text of
        Inl err \<Rightarrow> Inl err
      | Inr e' \<Rightarrow> grub_loop fsys e' texts)"

text \<open>
  \<^verbatim>\<open>LoadGrubEntry\<close>. The error of \<^verbatim>\<open>fs.ReadFile\<close> is assigned to the result
  parameter \<^verbatim>\<open>err\<close> and not tested; the errors inside the loop are new variables of
  their blocks, so the final plain \<^verbatim>\<open>return\<close> returns the entry with the error of
  \<^verbatim>\<open>fs.ReadFile\<close>. \<^verbatim>\<open>blocks[0]\<close> panics when the slice is empty.
\<close>

definition LoadGrubEntry :: "FS \<Rightarrow> string \<Rightarrow> (Entry option \<times> error option) outcome" where
  "LoadGrubEntry fsys path =
     (case ReadFile fsys path of
        (toParse, err) \<Rightarrow>
          (case ExtractGrubMenuentries toParse of
             (blocks, _) \<Rightarrow>
               (case blocks of
                  [] \<Rightarrow> Panic (IndexOutOfRange 0 0)
                | menuentryBlock # _ \<Rightarrow>
                    (case titleRe_FindStringSubmatch menuentryBlock of
                       None \<Rightarrow> Return (None, Some ErrNoTitle)
                     | Some title \<Rightarrow>
                         (case bodyRe_FindStringSubmatch menuentryBlock of
                            None \<Rightarrow> Return (None, Some ErrMissingBraces)
                          | Some body \<Rightarrow>
                              (case scanLines body of
                                 (texts, scErr) \<Rightarrow>
                                   (case grub_loop fsys (new_Entry\<lparr>Title := title\<rparr>) texts of
                                      Inl e1 \<Rightarrow> Return (None, Some e1)
                                    | Inr e \<Rightarrow>
                                        (case scErr of
                                           Some e2 \<Rightarrow> Return (None, Some e2)
                                         | None \<Rightarrow> Return (Some e, err)))))))))"

section \<open>Notions used to state the properties\<close>

text \<open>
  A file tree that holds the listed files and nothing else, as \<^verbatim>\<open>fstest.MapFS\<close>
  does: reading a name that is not listed fails and returns no bytes.
\<close>

definition MapFS :: "(string \<times> bytes) list \<Rightarrow> FS" where
  "MapFS files name =
     (case map_of files name of
        Some b \<Rightarrow> (b, None)
      | None \<Rightarrow> ([], Some (FsError ''file does not exist'')))"

text \<open>
  The values of the lines of a Type 1 entry with the given key, trimmed as
  \<^verbatim>\<open>parseKey\<close> trims them, in the order of the lines.
\<close>

fun key_values :: "string \<Rightarrow> string list \<Rightarrow> string list" where
  "key_values key [] = []"
| "key_values key (line # lines) =
     (case SplitN2 line (CHR '' '') of
        [k, r] \<Rightarrow>
          if k = key then TrimSpace (Trim r [CHR 0x0A, CHR 0x0D]) # key_values key lines
          else key_values key lines
      | _ \<Rightarrow> key_values key lines)"

text \<open>
  The error of loading the file that a line of a Type 1 entry names, when the line
  has the key \<open>linux\<close> or \<open>initrd\<close> and the file tree fails on its value.
\<close>

definition uapi_load_error :: "FS \<Rightarrow> string \<Rightarrow> error option" where
  "uapi_load_error fsys line =
     (case SplitN2 line (CHR '' '') of
        [k, r] \<Rightarrow>
          if k = ''linux'' \<or> k = ''initrd''
          then snd (loadKeyValue fsys (TrimSpace (Trim r [CHR 0x0A, CHR 0x0D])))
          else None
      | _ \<Rightarrow> None)"

text \<open>
  The lines that \<^verbatim>\<open>LoadGrubEntry\<close> scans for a configuration text: the lines of the
  body of its first block, up to a line that is too long for the scanner; none when
  there is no block, no title or no body.
\<close>

definition grub_body_lines :: "string \<Rightarrow> string list" where
  "grub_body_lines data =
     (case fst (ExtractGrubMenuentries data) of
        [] \<Rightarrow> []
      | menuentryBlock # _ \<Rightarrow>
          (case titleRe_FindStringSubmatch menuentryBlock of
             None \<Rightarrow> []
           | Some _ \<Rightarrow>
               (case bodyRe_FindStringSubmatch menuentryBlock of
                  None \<Rightarrow> []
                | Some body \<Rightarrow> fst (scanLines body))))"

text \<open>The paths of a scanned line that is an \<open>initrd\<close> directive, in their
  order; none for any other line.\<close>

definition initrd_paths :: "string \<Rightarrow> string list" where
  "initrd_paths text =
     (let line = TrimSpace text
      in if line = [] \<or> HasPrefix line (CHR ''#'') then []
         else (case Fields line of
                 [] \<Rightarrow> []
               | f0 # rest \<Rightarrow> if f0 = ''initrd'' then rest else []))"

text \<open>An error of \<^verbatim>\<open>LoadGrubEntry\<close> that names a path and the error that the file
  tree returned for it.\<close>

definition is_load_error :: "FS \<Rightarrow> error \<Rightarrow> bool" where
  "is_load_error fsys err =
     (case err of
        ErrLoadingLinux p e \<Rightarrow> snd (loadKeyValue fsys p) = Some e
      | ErrLoadingInitrd p e \<Rightarrow> snd (loadKeyValue fsys p) = Some e
      | _ \<Rightarrow> False)"

text \<open>The change of the brace depth over lines read while collecting.\<close>

definition brace_delta :: "string list \<Rightarrow> int" where
  "brace_delta ls = sum_list (map (\<lambda>l. Count l (CHR ''{'') - Count l (CHR ''}'')) ls)"

text \<open>The depth that \<^verbatim>\<open>ExtractGrubMenuentries\<close> computes for a matching opening
  line.\<close>

definition open_depth :: "string \<Rightarrow> int" where
  "open_depth line = (if Contains line (CHR ''{'') then 1 - Count line (CHR ''}'') else 0)"

text \<open>
  An invariant of the loop of \<^verbatim>\<open>ExtractGrubMenuentries\<close> over lines without a
  newline: a block that has been appended is the join of an opening line and at
  least one more line, after which the depth is 0; while collecting, the depth is
  that of the opening line changed by the lines collected since.
\<close>

definition extract_inv :: "extract_state \<Rightarrow> bool" where
  "extract_inv st =
     ((\<forall>b \<in> set (entries st). \<exists>l bs. bs \<noteq> [] \<and> b = Join (l # bs) [CHR 0x0A]
          \<and> (\<forall>x \<in> set (l # bs). CHR 0x0A \<notin> set x) \<and> open_depth l + brace_delta bs = 0)
      \<and> (collecting st \<longrightarrow> (\<exists>l bs. current st = l # bs
          \<and> (\<forall>x \<in> set (l # bs). CHR 0x0A \<notin> set x) \<and> braceLevel st = open_depth l + brace_delta bs)))"

section \<open>Evaluating the parsers on concrete inputs\<close>

lemmas extract_defs =
  ExtractGrubMenuentries_def extract_step_def extract_init_def
  menuentryStart_MatchString_def titleRe_at_def reSpace_def Contains_def Count_def Let_def

lemmas space_defs =
  TrimSpace_def leadingSpace_def trailingSpace_def asciiSpace_def isSpace2_def isSpace3_def
  Fields_def

lemmas uapi_defs =
  LoadEntry_def ReadFile_def MapFS_def parseKey_def SplitN2_def Trim_def new_Entry_def
  loadKeyValue_def ReplaceAll_def

lemmas grub_defs =
  LoadGrubEntry_def ReadFile_def MapFS_def bodyRe_FindStringSubmatch_def scanLines_def
  dropCR_def MaxScanTokenSize_def grub_line_def HasPrefix_def new_Entry_def
  loadKeyValue_def ReplaceAll_def

section \<open>Lemmas about the loops\<close>

subsection \<open>The Type 1 parser\<close>

lemma parseKey_fields:
  assumes "parseKey fsys e line = (e', None)"
  shows "Options e' = Options e @ concat (key_values ''options'' [line])"
    and "Initrd e' = Initrd e @ concat (map (\<lambda>v. fst (loadKeyValue fsys v)) (key_values ''initrd'' [line]))"
  using assms
  by (cases "CHR '' '' \<in> set line";
      auto simp: parseKey_def SplitN2_def Let_def split: if_splits prod.splits option.splits)+

lemma key_values_Cons: "key_values key (line # lines) = key_values key [line] @ key_values key lines"
  by (simp split: list.splits)

lemma LoadEntry_loop_fields:
  "LoadEntry_loop fsys e lines = Inr e' \<Longrightarrow>
     Options e' = Options e @ concat (key_values ''options'' lines) \<and>
     Initrd e' = Initrd e @ concat (map (\<lambda>v. fst (loadKeyValue fsys v)) (key_values ''initrd'' lines))"
proof (induction lines arbitrary: e)
  case Nil
  then show ?case by simp
next
  case (Cons line lines)
  from Cons.prems obtain e1 where
    step: "parseKey fsys e line = (e1, None)" and rest: "LoadEntry_loop fsys e1 lines = Inr e'"
    by (auto split: prod.splits option.splits)
  note ih = Cons.IH [OF rest]
  note st = parseKey_fields [OF step]
  show ?case
    using ih st
    by (subst (1 2) key_values_Cons) (simp del: key_values.simps)
qed

lemma parseKey_error: "snd (parseKey fsys e line) = uapi_load_error fsys line"
  by (cases "CHR '' '' \<in> set line")
     (auto simp: parseKey_def uapi_load_error_def SplitN2_def Let_def
           split: prod.splits option.splits)

lemma parseKey_partition:
  assumes "parseKey fsys e line = (e', None)"
  shows "(parsed e' = parsed e @ line \<and> ignored e' = ignored e)
       \<or> (parsed e' = parsed e \<and> ignored e' = ignored e @ line)
       \<or> (CHR '' '' \<notin> set line \<and> parsed e' = parsed e \<and> ignored e' = ignored e)"
  using assms
  by (cases "CHR '' '' \<in> set line")
     (auto simp: parseKey_def SplitN2_def Let_def split: if_splits prod.splits option.splits)

lemma LoadEntry_loop_fails:
  "line \<in> set lines \<Longrightarrow> uapi_load_error fsys line \<noteq> None \<Longrightarrow>
     \<exists>err l. LoadEntry_loop fsys e lines = Inl (ErrParsingEntryLine err l)
             \<and> l \<in> set lines \<and> uapi_load_error fsys l = Some err"
proof (induction lines arbitrary: e)
  case Nil
  then show ?case by simp
next
  case (Cons x xs)
  obtain e1 r where pk: "parseKey fsys e x = (e1, r)" by (cases "parseKey fsys e x")
  with parseKey_error [of fsys e x] have r: "uapi_load_error fsys x = r" by simp
  show ?case
  proof (cases r)
    case None
    with r Cons.prems have "line \<in> set xs" by auto
    from Cons.IH [OF this Cons.prems(2), of e1] obtain err l where
      "LoadEntry_loop fsys e1 xs = Inl (ErrParsingEntryLine err l)"
      "l \<in> set xs" "uapi_load_error fsys l = Some err"
      by blast
    with pk None show ?thesis by auto
  next
    case (Some err)
    with pk r have "LoadEntry_loop fsys e (x # xs) = Inl (ErrParsingEntryLine err x)"
      "uapi_load_error fsys x = Some err"
      by simp_all
    then show ?thesis by auto
  qed
qed

subsection \<open>The GRUB parser\<close>

lemma initrd_loop_Inr:
  "initrd_loop fsys e ps = Inr e' \<Longrightarrow>
     Initrd e' = Initrd e @ concat (map (\<lambda>p. fst (loadKeyValue fsys p)) ps)"
proof (induction ps arbitrary: e)
  case Nil
  then show ?case by simp
next
  case (Cons p ps)
  from Cons.prems obtain d where
    ld: "loadKeyValue fsys p = (d, None)"
    and rest: "initrd_loop fsys (e\<lparr>Initrd := Initrd e @ d\<rparr>) ps = Inr e'"
    by (auto split: prod.splits option.splits)
  from Cons.IH [OF rest] ld show ?case by simp
qed

lemma grub_line_Initrd:
  assumes "grub_line fsys e text = Inr e'"
  shows "Initrd e' = Initrd e @ concat (map (\<lambda>p. fst (loadKeyValue fsys p)) (initrd_paths text))"
  using assms
  by (auto simp: grub_line_def initrd_paths_def Let_def
           split: if_splits list.splits prod.splits option.splits sum.splits
           dest!: initrd_loop_Inr)

lemma grub_loop_Initrd:
  "grub_loop fsys e texts = Inr e' \<Longrightarrow>
     Initrd e' = Initrd e @ concat (map (\<lambda>p. fst (loadKeyValue fsys p)) (concat (map initrd_paths texts)))"
proof (induction texts arbitrary: e)
  case Nil
  then show ?case by simp
next
  case (Cons t ts)
  from Cons.prems obtain e1 where
    step: "grub_line fsys e t = Inr e1" and rest: "grub_loop fsys e1 ts = Inr e'"
    by (auto split: sum.splits)
  from Cons.IH [OF rest] grub_line_Initrd [OF step] show ?case by simp
qed

lemma LoadGrubEntry_Some:
  assumes "LoadGrubEntry fsys path = Return (Some e, err)"
  shows "\<exists>title. grub_loop fsys (new_Entry\<lparr>Title := title\<rparr>) (grub_body_lines (fst (ReadFile fsys path))) = Inr e"
  using assms
  by (auto simp: LoadGrubEntry_def grub_body_lines_def
           split: prod.splits list.splits option.splits sum.splits)

lemma initrd_loop_fails:
  "p \<in> set ps \<Longrightarrow> snd (loadKeyValue fsys p) \<noteq> None \<Longrightarrow>
     \<exists>err. initrd_loop fsys e ps = Inl err \<and> is_load_error fsys err"
proof (induction ps arbitrary: e)
  case Nil
  then show ?case by simp
next
  case (Cons q qs)
  show ?case
  proof (cases "snd (loadKeyValue fsys q)")
    case None
    with Cons.prems have "p \<in> set qs" by auto
    from Cons.IH [OF this Cons.prems(2)] None show ?thesis
      by (auto split: prod.splits)
  next
    case (Some e')
    then show ?thesis
      by (auto simp: is_load_error_def split: prod.splits)
  qed
qed

lemma grub_line_Inl:
  "grub_line fsys e text = Inl err \<Longrightarrow> is_load_error fsys err"
proof -
  have il: "\<And>e ps err. initrd_loop fsys e ps = Inl err \<Longrightarrow> is_load_error fsys err"
  proof -
    fix e ps err show "initrd_loop fsys e ps = Inl err \<Longrightarrow> is_load_error fsys err"
      by (induction ps arbitrary: e)
         (auto simp: is_load_error_def split: prod.splits option.splits)
  qed
  assume "grub_line fsys e text = Inl err"
  then show ?thesis
    by (auto simp: grub_line_def Let_def is_load_error_def
           split: if_splits list.splits prod.splits option.splits sum.splits
           dest: il)
qed

lemma grub_line_fails:
  assumes "p \<in> set (initrd_paths text)" and "snd (loadKeyValue fsys p) \<noteq> None"
  shows "\<exists>err. grub_line fsys e text = Inl err"
proof -
  from assms(1) have ne: "\<not> (TrimSpace text = [] \<or> HasPrefix (TrimSpace text) (CHR ''#''))"
    by (auto simp: initrd_paths_def Let_def split: if_splits)
  show ?thesis
  proof (cases "Fields (TrimSpace text)")
    case Nil
    with assms(1) ne show ?thesis by (simp add: initrd_paths_def)
  next
    case (Cons f0 rest)
    with assms(1) ne have f0: "f0 = ''initrd''" and p: "p \<in> set rest"
      by (auto simp: initrd_paths_def split: if_splits)
    from initrd_loop_fails [OF p assms(2)] obtain err where
      "initrd_loop fsys e rest = Inl err" by blast
    with Cons f0 p ne show ?thesis
      by (cases rest) (simp_all add: grub_line_def)
  qed
qed

lemma grub_loop_fails:
  "text \<in> set texts \<Longrightarrow> p \<in> set (initrd_paths text) \<Longrightarrow> snd (loadKeyValue fsys p) \<noteq> None \<Longrightarrow>
     \<exists>err. grub_loop fsys e texts = Inl err \<and> is_load_error fsys err"
proof (induction texts arbitrary: e)
  case Nil
  then show ?case by simp
next
  case (Cons t ts)
  show ?case
  proof (cases "grub_line fsys e t")
    case (Inl err)
    with grub_line_Inl [OF Inl] show ?thesis by simp
  next
    case (Inr e1)
    with grub_line_fails [OF _ Cons.prems(3), of t e] Cons.prems(2) have "text \<noteq> t"
      by auto
    with Cons.prems(1) have "text \<in> set ts" by simp
    from Cons.IH [OF this Cons.prems(2,3)] Inr show ?thesis by simp
  qed
qed

subsection \<open>The file tree is read under translated names only\<close>

lemma loadKeyValue_cong:
  assumes "\<forall>name. CHR ''/'' \<notin> set name \<longrightarrow> fsys' name = fsys name"
  shows "loadKeyValue fsys' v = loadKeyValue fsys v"
proof -
  have "CHR ''/'' \<notin> set (ReplaceAll v (CHR ''/'') (CHR 0x5C))"
    by (auto simp: ReplaceAll_def)
  with assms show ?thesis
    by (simp add: loadKeyValue_def ReadFile_def)
qed

lemma loadKeyValue_cong_fun:
  assumes "\<forall>name. CHR ''/'' \<notin> set name \<longrightarrow> fsys' name = fsys name"
  shows "loadKeyValue fsys' = loadKeyValue fsys"
  by (rule ext) (rule loadKeyValue_cong [OF assms])

lemma parseKey_cong:
  assumes "\<forall>name. CHR ''/'' \<notin> set name \<longrightarrow> fsys' name = fsys name"
  shows "parseKey fsys' e line = parseKey fsys e line"
  unfolding parseKey_def loadKeyValue_cong_fun [OF assms] by (rule refl)

lemma LoadEntry_loop_cong:
  assumes "\<forall>name. CHR ''/'' \<notin> set name \<longrightarrow> fsys' name = fsys name"
  shows "LoadEntry_loop fsys' e lines = LoadEntry_loop fsys e lines"
  by (induction lines arbitrary: e)
     (simp_all add: parseKey_cong [OF assms] split: prod.splits option.splits)

lemma initrd_loop_cong:
  assumes "\<forall>name. CHR ''/'' \<notin> set name \<longrightarrow> fsys' name = fsys name"
  shows "initrd_loop fsys' e ps = initrd_loop fsys e ps"
  by (induction ps arbitrary: e)
     (simp_all add: loadKeyValue_cong [OF assms] split: prod.splits option.splits)

lemma initrd_loop_cong_fun:
  assumes "\<forall>name. CHR ''/'' \<notin> set name \<longrightarrow> fsys' name = fsys name"
  shows "initrd_loop fsys' = initrd_loop fsys"
  by (intro ext) (rule initrd_loop_cong [OF assms])

lemma grub_line_cong:
  assumes "\<forall>name. CHR ''/'' \<notin> set name \<longrightarrow> fsys' name = fsys name"
  shows "grub_line fsys' e text = grub_line fsys e text"
  unfolding grub_line_def loadKeyValue_cong_fun [OF assms] initrd_loop_cong_fun [OF assms]
  by (rule refl)

lemma grub_loop_cong:
  assumes "\<forall>name. CHR ''/'' \<notin> set name \<longrightarrow> fsys' name = fsys name"
  shows "grub_loop fsys' e texts = grub_loop fsys e texts"
  by (induction texts arbitrary: e)
     (simp_all add: grub_line_cong [OF assms] split: sum.splits)

lemma grub_loop_cong_fun:
  assumes "\<forall>name. CHR ''/'' \<notin> set name \<longrightarrow> fsys' name = fsys name"
  shows "grub_loop fsys' = grub_loop fsys"
  by (intro ext) (rule grub_loop_cong [OF assms])

lemma LoadEntry_loop_cong_fun:
  assumes "\<forall>name. CHR ''/'' \<notin> set name \<longrightarrow> fsys' name = fsys name"
  shows "LoadEntry_loop fsys' = LoadEntry_loop fsys"
  by (intro ext) (rule LoadEntry_loop_cong [OF assms])

subsection \<open>The block extractor\<close>

lemma extract_loop_unterminated:
  assumes "collecting st"
    and "\<forall>k. 0 < k \<and> k \<le> length ls \<longrightarrow> braceLevel st + brace_delta (take k ls) \<noteq> 0"
  shows "entries (extract_loop st ls) = entries st"
  using assms
proof (induction ls arbitrary: st)
  case Nil
  then show ?case by simp
next
  case (Cons l ls)
  let ?d = "Count l (CHR ''{'') - Count l (CHR ''}'')"
  let ?st = "st\<lparr>current := current st @ [l], braceLevel := braceLevel st + ?d\<rparr>"
  from Cons.prems(2) have "braceLevel st + brace_delta (take 1 (l # ls)) \<noteq> 0"
    by (metis One_nat_def Suc_leI length_Cons zero_less_Suc zero_less_one)
  then have nz: "braceLevel st + ?d \<noteq> 0"
    by (simp add: brace_delta_def)
  with Cons.prems(1) have step: "extract_step st l = ?st"
    by (simp add: extract_step_def Let_def)
  have coll: "collecting ?st" using Cons.prems(1) by simp
  have rest: "\<forall>k. 0 < k \<and> k \<le> length ls \<longrightarrow> braceLevel ?st + brace_delta (take k ls) \<noteq> 0"
  proof (intro allI impI)
    fix k assume k: "0 < k \<and> k \<le> length ls"
    then have "0 < Suc k \<and> Suc k \<le> length (l # ls)" by simp
    with Cons.prems(2) have "braceLevel st + brace_delta (take (Suc k) (l # ls)) \<noteq> 0"
      by blast
    then show "braceLevel ?st + brace_delta (take k ls) \<noteq> 0"
      by (simp add: brace_delta_def algebra_simps)
  qed
  from Cons.IH [OF coll rest] step show ?case by simp
qed

lemma extract_loop_append: "extract_loop st (xs @ ys) = extract_loop (extract_loop st xs) ys"
  by (induction xs arbitrary: st) simp_all

lemma extract_step_opens:
  "\<not> collecting st \<Longrightarrow> menuentryStart_MatchString line \<Longrightarrow>
     collecting (extract_step st line) \<and> entries (extract_step st line) = entries st"
  by (simp add: extract_step_def Let_def)

lemma Split_nonempty: "Split s c \<noteq> []"
  by (induction s) (auto split: list.splits)

lemma Split_no_sep: "x \<in> set (Split s c) \<Longrightarrow> c \<notin> set x"
proof (induction s arbitrary: x)
  case Nil
  then show ?case by simp
next
  case (Cons a s)
  show ?case
  proof (cases "a = c")
    case True
    with Cons show ?thesis by auto
  next
    case False
    obtain l ls where sp: "Split s c = l # ls"
      using Split_nonempty [of s c] by (cases "Split s c") auto
    with Cons.prems False have "x = a # l \<or> x \<in> set ls" by simp
    with Cons.IH sp False show ?thesis by auto
  qed
qed

lemma Split_single: "c \<notin> set x \<Longrightarrow> Split x c = [x]"
  by (induction x) auto

lemma Split_append: "c \<notin> set x \<Longrightarrow> Split (x @ c # r) c = x # Split r c"
  by (induction x) auto

lemma Split_Join:
  "xs \<noteq> [] \<Longrightarrow> \<forall>x \<in> set xs. c \<notin> set x \<Longrightarrow> Split (Join xs [c]) c = xs"
proof (induction xs "[c]" rule: Join.induct)
  case 1
  then show ?case by simp
next
  case (2 x)
  then show ?case by (simp add: Split_single)
next
  case (3 x y ys)
  then show ?case by (simp add: Split_append)
qed

lemma extract_step_open:
  "\<not> collecting st \<Longrightarrow> menuentryStart_MatchString line \<Longrightarrow>
     extract_step st line = st\<lparr>collecting := True, braceLevel := open_depth line, current := [line]\<rparr>"
  by (simp add: extract_step_def Let_def open_depth_def Count_def)

lemma extract_step_skip:
  "\<not> collecting st \<Longrightarrow> \<not> menuentryStart_MatchString line \<Longrightarrow> extract_step st line = st"
  by (simp add: extract_step_def)

lemma extract_step_inv:
  assumes "extract_inv st" and "CHR 0x0A \<notin> set line"
  shows "extract_inv (extract_step st line)"
proof (cases "collecting st")
  case False
  show ?thesis
  proof (cases "menuentryStart_MatchString line")
    case True
    have "\<exists>l bs. [line] = l # bs \<and> (\<forall>x \<in> set (l # bs). CHR 0x0A \<notin> set x)
            \<and> open_depth line = open_depth l + brace_delta bs"
      apply (rule exI [of _ line], rule exI [of _ "[]"])
      using assms(2) by (simp add: brace_delta_def)
    with assms(1) show ?thesis
      unfolding extract_step_open [OF False True] by (simp add: extract_inv_def)
  next
    case nm: False
    with assms(1) show ?thesis
      unfolding extract_step_skip [OF False nm] by simp
  qed
next
  case True
  with assms(1) obtain l bs where
    cur: "current st = l # bs" "\<forall>x \<in> set (l # bs). CHR 0x0A \<notin> set x"
      "braceLevel st = open_depth l + brace_delta bs"
    by (auto simp: extract_inv_def)
  let ?d = "Count line (CHR ''{'') - Count line (CHR ''}'')"
  have bd: "brace_delta (bs @ [line]) = brace_delta bs + ?d"
    by (simp add: brace_delta_def)
  have nl: "\<forall>x \<in> set (l # bs @ [line]). CHR 0x0A \<notin> set x"
    using cur(2) assms(2) by auto
  show ?thesis
  proof (cases "braceLevel st + ?d = 0")
    case z: True
    have "\<exists>l' bs'. bs' \<noteq> [] \<and> Join (current st @ [line]) [CHR 0x0A] = Join (l' # bs') [CHR 0x0A]
          \<and> (\<forall>x \<in> set (l' # bs'). CHR 0x0A \<notin> set x) \<and> open_depth l' + brace_delta bs' = 0"
      apply (rule exI [of _ l], rule exI [of _ "bs @ [line]"])
      using cur z bd nl by (simp add: algebra_simps)
    with True z assms(1) show ?thesis
      by (auto simp: extract_inv_def extract_step_def Let_def algebra_simps)
  next
    case nz: False
    have "\<exists>l' bs'. current st @ [line] = l' # bs'
          \<and> (\<forall>x \<in> set (l' # bs'). CHR 0x0A \<notin> set x)
          \<and> braceLevel st + ?d = open_depth l' + brace_delta bs'"
      apply (rule exI [of _ l], rule exI [of _ "bs @ [line]"])
      using cur bd nl by simp
    with True nz assms(1) show ?thesis
      by (auto simp: extract_inv_def extract_step_def Let_def algebra_simps)
  qed
qed

lemma extract_loop_inv:
  "extract_inv st \<Longrightarrow> \<forall>x \<in> set ls. CHR 0x0A \<notin> set x \<Longrightarrow> extract_inv (extract_loop st ls)"
  by (induction ls arbitrary: st) (simp_all add: extract_step_inv)

lemma extract_inv_init: "extract_inv extract_init"
  by (simp add: extract_inv_def extract_init_def)

lemma extract_inv_entries:
  assumes "extract_inv st" and "b \<in> set (entries st)"
  shows "\<exists>l bs. bs \<noteq> [] \<and> Split b (CHR 0x0A) = l # bs \<and> open_depth l + brace_delta bs = 0"
proof -
  from assms obtain l bs where
    b: "bs \<noteq> []" "b = Join (l # bs) [CHR 0x0A]"
      "\<forall>x \<in> set (l # bs). CHR 0x0A \<notin> set x" "open_depth l + brace_delta bs = 0"
    unfolding extract_inv_def by blast
  have "Split (Join (l # bs) [CHR 0x0A]) (CHR 0x0A) = l # bs"
    by (rule Split_Join) (use b(3) in simp_all)
  with b show ?thesis by blast
qed

section \<open>The properties\<close>

text \<open>
  C1. The claim: when the GRUB configuration is readable and the block extractor
  yields no block (the empty configuration, say), LoadGrubEntry returns an explicit
  structural error; indexing the first block is guarded. The code indexes
  \<^verbatim>\<open>blocks[0]\<close> with no test of the length: for a file tree whose \<open>grub.cfg\<close> is
  readable and empty, the call panics.
\<close>

theorem LoadGrubEntry_empty_config_panics:
  "LoadGrubEntry (MapFS [(''grub.cfg'', [])]) ''grub.cfg'' = Panic (IndexOutOfRange 0 0)"
  by (simp add: LoadGrubEntry_def ReadFile_def MapFS_def extract_defs)

text \<open>
  C2. The claim: when reading the GRUB configuration from the file tree fails,
  LoadGrubEntry returns an error before any parsing, and does not panic. The code
  never tests the error of \<^verbatim>\<open>fs.ReadFile\<close>: for a file tree without the file, the
  extractor runs on the empty text and \<^verbatim>\<open>blocks[0]\<close> panics.
\<close>

theorem LoadGrubEntry_unreadable_config_panics:
  "ReadFile (MapFS []) ''grub.cfg'' = ([], Some (FsError ''file does not exist''))
   \<and> LoadGrubEntry (MapFS []) ''grub.cfg'' = Panic (IndexOutOfRange 0 0)"
  by (simp add: LoadGrubEntry_def ReadFile_def MapFS_def extract_defs)

text \<open>
  C3. The claim: in both parsers every processed line lands in exactly one of the
  recognized text and the ignored text (or in neither, for a Type 1 line with no
  key), and a line with an unrecognized key or directive is never appended to the
  recognized text. In \<^verbatim>\<open>LoadGrubEntry\<close> the default case of the switch appends the
  line to the ignored text and then falls out of the switch to the statement that
  appends it to the recognized text: the line \<open>echo hi\<close> below lands in both.
\<close>

theorem LoadGrubEntry_unrecognized_line_in_both_texts:
  "LoadGrubEntry (MapFS [(''grub.cfg'', ''menuentry 'A' {\<newline> echo hi\<newline>}\<newline>'')]) ''grub.cfg''
   = Return (Some \<lparr>Title = ''A'', Linux = [], Initrd = [], Options = [],
                   parsed = ''echo hi\<newline>'', ignored = ''echo hi\<newline>''\<rparr>, None)"
  by (simp add: grub_defs extract_defs space_defs)

text \<open>
  C4. The claim: on the text below the block extractor returns two blocks, the block
  of entry A and the one-line block of entry B. The code tests the depth only after
  a line that follows the opening line, so the one-line block B, on the last line of
  the text, is never appended: one block is returned.
\<close>

theorem ExtractGrubMenuentries_drops_single_line_block:
  "ExtractGrubMenuentries
     ''menuentry 'A' {\<newline>  x {y} z\<newline>}\<newline>menuentry 'B' { }''
   = ([''menuentry 'A' {\<newline>  x {y} z\<newline>}''], None)"
  by (simp add: extract_defs)

text \<open>
  C5. The claim: after a matching opening line the depth is the number of opening
  braces on the line minus the number of closing braces on it. The code adds 1 when
  the line has an opening brace at all, and subtracts the closing braces only then:
  on the opening line below, with two opening braces and one closing brace, the
  depth is 0 and not 1, and the block ends one line later, before its closing brace.
\<close>

theorem extract_step_opening_line_counts_one_brace:
  "menuentryStart_MatchString ''menuentry 'A' ${x} {''
   \<and> Count ''menuentry 'A' ${x} {'' (CHR ''{'') - Count ''menuentry 'A' ${x} {'' (CHR ''}'') = 1
   \<and> braceLevel (extract_step extract_init ''menuentry 'A' ${x} {'') = 0
   \<and> ExtractGrubMenuentries ''menuentry 'A' ${x} {\<newline> linux /vmlinuz\<newline>}\<newline>''
       = ([''menuentry 'A' ${x} {\<newline> linux /vmlinuz''], None)"
  by (simp add: extract_defs)

text \<open>
  C6. When a line that a parser processes is an \<open>initrd\<close> key or directive and the
  file tree fails on its path, the parse is aborted: no entry is returned, and the
  error returned names a line (Type 1) or a path (GRUB) of the input on which the
  file tree failed, with the error of the file tree. For Type 1 the line is a line
  of the entry file that was read; for GRUB it is a scanned line of the body of the
  first block.
\<close>

theorem initrd_load_failure_aborts:
  "(snd (ReadFile fsys path) = None \<and> line \<in> set (Lines (fst (ReadFile fsys path)))
      \<and> SplitN2 line (CHR '' '') = [''initrd'', r]
      \<and> snd (loadKeyValue fsys (TrimSpace (Trim r [CHR 0x0A, CHR 0x0D]))) \<noteq> None
     \<longrightarrow> (\<exists>err l. LoadEntry fsys path = (None, Some (ErrParsingEntryLine err l))
                  \<and> l \<in> set (Lines (fst (ReadFile fsys path)))
                  \<and> uapi_load_error fsys l = Some err))
   \<and> (tok \<in> set (grub_body_lines (fst (ReadFile fsys gpath)))
      \<and> p \<in> set (initrd_paths tok) \<and> snd (loadKeyValue fsys p) \<noteq> None
     \<longrightarrow> (\<exists>err. LoadGrubEntry fsys gpath = Return (None, Some err) \<and> is_load_error fsys err))"
proof (intro conjI impI)
  assume a: "snd (ReadFile fsys path) = None \<and> line \<in> set (Lines (fst (ReadFile fsys path)))
      \<and> SplitN2 line (CHR '' '') = [''initrd'', r]
      \<and> snd (loadKeyValue fsys (TrimSpace (Trim r [CHR 0x0A, CHR 0x0D]))) \<noteq> None"
  then have "uapi_load_error fsys line \<noteq> None"
    by (simp add: uapi_load_error_def)
  from LoadEntry_loop_fails [OF _ this, of "Lines (fst (ReadFile fsys path))" new_Entry] a
  obtain err l where
    "LoadEntry_loop fsys new_Entry (Lines (fst (ReadFile fsys path))) = Inl (ErrParsingEntryLine err l)"
    "l \<in> set (Lines (fst (ReadFile fsys path)))" "uapi_load_error fsys l = Some err"
    by blast
  with a show "\<exists>err l. LoadEntry fsys path = (None, Some (ErrParsingEntryLine err l))
                  \<and> l \<in> set (Lines (fst (ReadFile fsys path)))
                  \<and> uapi_load_error fsys l = Some err"
    by (auto simp: LoadEntry_def split: prod.splits)
next
  assume a: "tok \<in> set (grub_body_lines (fst (ReadFile fsys gpath)))
      \<and> p \<in> set (initrd_paths tok) \<and> snd (loadKeyValue fsys p) \<noteq> None"
  obtain toParse rerr where rf: "ReadFile fsys gpath = (toParse, rerr)"
    by (cases "ReadFile fsys gpath")
  from a rf obtain block more title body where
    b: "fst (ExtractGrubMenuentries toParse) = block # more"
      "titleRe_FindStringSubmatch block = Some title"
      "bodyRe_FindStringSubmatch block = Some body"
      "tok \<in> set (fst (scanLines body))"
    by (auto simp: grub_body_lines_def split: list.splits option.splits
             intro: that [OF sym sym sym])
  from a have "p \<in> set (initrd_paths tok)" "snd (loadKeyValue fsys p) \<noteq> None" by simp_all
  from grub_loop_fails [OF b(4) this, of "new_Entry\<lparr>Title := title\<rparr>"] obtain err where
    "grub_loop fsys (new_Entry\<lparr>Title := title\<rparr>) (fst (scanLines body)) = Inl err"
    "is_load_error fsys err"
    by blast
  with b rf show "\<exists>err. LoadGrubEntry fsys gpath = Return (None, Some err) \<and> is_load_error fsys err"
    by (auto simp: LoadGrubEntry_def split: prod.splits)
qed

theorem initrd_load_failure_aborts_witness:
  "(\<exists>err l. LoadEntry (MapFS [(''entry.conf'', ''title X\<newline>initrd missing.img\<newline>'')]) ''entry.conf''
              = (None, Some (ErrParsingEntryLine err l)))
   \<and> LoadEntry (MapFS [(''entry.conf'', ''title X\<newline>initrd missing.img\<newline>'')]) ''entry.conf''
       = (None, Some (ErrParsingEntryLine (FsError ''file does not exist'')
                        ''initrd missing.img\<newline>''))
   \<and> (\<exists>err. LoadGrubEntry
               (MapFS [(''grub.cfg'', ''menuentry 'A' {\<newline> linux k\<newline> initrd a.img missing.img\<newline>}\<newline>''),
                       (''k'', ''K''), (''a.img'', ''AA'')]) ''grub.cfg''
              = Return (None, Some err))
   \<and> LoadGrubEntry
        (MapFS [(''grub.cfg'', ''menuentry 'A' {\<newline> linux k\<newline> initrd a.img missing.img\<newline>}\<newline>''),
                (''k'', ''K''), (''a.img'', ''AA'')]) ''grub.cfg''
       = Return (None, Some (ErrLoadingInitrd ''missing.img'' (FsError ''file does not exist'')))"
proof -
  let ?u = "MapFS [(''entry.conf'', ''title X\<newline>initrd missing.img\<newline>'')]"
  let ?g = "MapFS [(''grub.cfg'', ''menuentry 'A' {\<newline> linux k\<newline> initrd a.img missing.img\<newline>}\<newline>''),
                   (''k'', ''K''), (''a.img'', ''AA'')]"
  have u1: "snd (ReadFile ?u ''entry.conf'') = None"
    by (simp add: ReadFile_def MapFS_def)
  have u2: "''initrd missing.img\<newline>'' \<in> set (Lines (fst (ReadFile ?u ''entry.conf'')))"
    by (simp add: ReadFile_def MapFS_def)
  have u3: "SplitN2 ''initrd missing.img\<newline>'' (CHR '' '') = [''initrd'', ''missing.img\<newline>'']"
    by (simp add: SplitN2_def)
  have u4: "snd (loadKeyValue ?u (TrimSpace (Trim ''missing.img\<newline>'' [CHR 0x0A, CHR 0x0D]))) \<noteq> None"
    by (simp add: uapi_defs space_defs)
  have g0: "grub_body_lines (fst (ReadFile ?g ''grub.cfg''))
              = [[], '' linux k'', '' initrd a.img missing.img'']"
    by (simp add: grub_body_lines_def grub_defs extract_defs)
  have g1: "'' initrd a.img missing.img'' \<in> set (grub_body_lines (fst (ReadFile ?g ''grub.cfg'')))"
    by (simp add: g0)
  have g2: "''missing.img'' \<in> set (initrd_paths '' initrd a.img missing.img'')"
    by (simp add: initrd_paths_def HasPrefix_def space_defs)
  have g3: "snd (loadKeyValue ?g ''missing.img'') \<noteq> None"
    by (simp add: loadKeyValue_def ReplaceAll_def ReadFile_def MapFS_def)
  have a: "\<exists>err l. LoadEntry ?u ''entry.conf'' = (None, Some (ErrParsingEntryLine err l))"
    using initrd_load_failure_aborts
            [where fsys = ?u and path = "''entry.conf''"
               and line = "''initrd missing.img\<newline>''" and r = "''missing.img\<newline>''"]
          u1 u2 u3 u4
    by blast
  have b: "\<exists>err. LoadGrubEntry ?g ''grub.cfg'' = Return (None, Some err)"
    using initrd_load_failure_aborts
            [where fsys = ?g and gpath = "''grub.cfg''"
               and tok = "'' initrd a.img missing.img''" and p = "''missing.img''"]
          g1 g2 g3
    by blast
  have c: "LoadEntry ?u ''entry.conf''
       = (None, Some (ErrParsingEntryLine (FsError ''file does not exist'')
                        ''initrd missing.img\<newline>''))"
    by (simp add: uapi_defs space_defs)
  have d: "LoadGrubEntry ?g ''grub.cfg''
       = Return (None, Some (ErrLoadingInitrd ''missing.img'' (FsError ''file does not exist'')))"
    by (simp add: grub_defs extract_defs space_defs)
  from a b c d show ?thesis by blast
qed

text \<open>
  C7. When a parse succeeds, the bytes of \<open>Initrd\<close> are the contents of the files of
  all \<open>initrd\<close> values, concatenated in the order of the text: the values of the
  \<open>initrd\<close> lines of a Type 1 entry, line after line; the paths of the \<open>initrd\<close>
  directives among the scanned lines of a GRUB block, line after line and, on a
  line, path after path. (Two files with the bytes A and B give A followed by B.)
\<close>

theorem initrd_concatenated_in_order:
  "(LoadEntry fsys path = (Some e, err) \<longrightarrow>
      Initrd e = concat (map (\<lambda>v. fst (loadKeyValue fsys v))
                          (key_values ''initrd'' (Lines (fst (ReadFile fsys path))))))
   \<and> (LoadGrubEntry fsys gpath = Return (Some ge, gerr) \<longrightarrow>
      Initrd ge = concat (map (\<lambda>p. fst (loadKeyValue fsys p))
                           (concat (map initrd_paths (grub_body_lines (fst (ReadFile fsys gpath)))))))"
proof (intro conjI impI)
  assume a: "LoadEntry fsys path = (Some e, err)"
  obtain entry rerr where rf: "ReadFile fsys path = (entry, rerr)" by (cases "ReadFile fsys path")
  with a have loop: "LoadEntry_loop fsys new_Entry (Lines entry) = Inr e"
    by (auto simp: LoadEntry_def split: option.splits sum.splits)
  from LoadEntry_loop_fields [OF loop] rf
  show "Initrd e = concat (map (\<lambda>v. fst (loadKeyValue fsys v))
                          (key_values ''initrd'' (Lines (fst (ReadFile fsys path)))))"
    by (simp add: new_Entry_def)
next
  assume a: "LoadGrubEntry fsys gpath = Return (Some ge, gerr)"
  from LoadGrubEntry_Some [OF a] obtain title where
    "grub_loop fsys (new_Entry\<lparr>Title := title\<rparr>) (grub_body_lines (fst (ReadFile fsys gpath))) = Inr ge"
    by blast
  from grub_loop_Initrd [OF this]
  show "Initrd ge = concat (map (\<lambda>p. fst (loadKeyValue fsys p))
                           (concat (map initrd_paths (grub_body_lines (fst (ReadFile fsys gpath))))))"
    by (simp add: new_Entry_def)
qed

theorem initrd_concatenated_in_order_witness:
  "LoadEntry (MapFS [(''entry.conf'', ''initrd a.img\<newline>initrd b.img\<newline>''),
                     (''a.img'', ''AA''), (''b.img'', ''BB'')]) ''entry.conf''
     = (Some \<lparr>Title = [], Linux = [], Initrd = ''AABB'', Options = [],
              parsed = ''initrd a.img\<newline>initrd b.img\<newline>'', ignored = []\<rparr>, None)
   \<and> concat (map (\<lambda>v. fst (loadKeyValue
                  (MapFS [(''entry.conf'', ''initrd a.img\<newline>initrd b.img\<newline>''),
                          (''a.img'', ''AA''), (''b.img'', ''BB'')]) v))
        (key_values ''initrd'' (Lines (fst (ReadFile
                  (MapFS [(''entry.conf'', ''initrd a.img\<newline>initrd b.img\<newline>''),
                          (''a.img'', ''AA''), (''b.img'', ''BB'')]) ''entry.conf'')))))
     = ''AABB''
   \<and> LoadGrubEntry
        (MapFS [(''grub.cfg'', ''menuentry 'A' {\<newline> initrd a.img b.img\<newline> initrd c.img\<newline>}\<newline>''),
                (''a.img'', ''AA''), (''b.img'', ''BB''), (''c.img'', ''CC'')]) ''grub.cfg''
     = Return (Some \<lparr>Title = ''A'', Linux = [], Initrd = ''AABBCC'', Options = [],
                     parsed = ''initrd a.img b.img\<newline>initrd c.img\<newline>'', ignored = []\<rparr>, None)
   \<and> concat (map (\<lambda>p. fst (loadKeyValue
                  (MapFS [(''grub.cfg'', ''menuentry 'A' {\<newline> initrd a.img b.img\<newline> initrd c.img\<newline>}\<newline>''),
                          (''a.img'', ''AA''), (''b.img'', ''BB''), (''c.img'', ''CC'')]) p))
        (concat (map initrd_paths (grub_body_lines (fst (ReadFile
                  (MapFS [(''grub.cfg'', ''menuentry 'A' {\<newline> initrd a.img b.img\<newline> initrd c.img\<newline>}\<newline>''),
                          (''a.img'', ''AA''), (''b.img'', ''BB''), (''c.img'', ''CC'')]) ''grub.cfg''))))))
     = ''AABBCC''"
proof -
  let ?u = "MapFS [(''entry.conf'', ''initrd a.img\<newline>initrd b.img\<newline>''),
                   (''a.img'', ''AA''), (''b.img'', ''BB'')]"
  let ?g = "MapFS [(''grub.cfg'', ''menuentry 'A' {\<newline> initrd a.img b.img\<newline> initrd c.img\<newline>}\<newline>''),
                   (''a.img'', ''AA''), (''b.img'', ''BB''), (''c.img'', ''CC'')]"
  let ?eu = "\<lparr>Title = [], Linux = [], Initrd = ''AABB'', Options = [],
              parsed = ''initrd a.img\<newline>initrd b.img\<newline>'', ignored = []\<rparr>"
  let ?eg = "\<lparr>Title = ''A'', Linux = [], Initrd = ''AABBCC'', Options = [],
              parsed = ''initrd a.img b.img\<newline>initrd c.img\<newline>'', ignored = []\<rparr>"
  have u: "LoadEntry ?u ''entry.conf'' = (Some ?eu, None)"
    by (simp add: uapi_defs space_defs)
  have g: "LoadGrubEntry ?g ''grub.cfg'' = Return (Some ?eg, None)"
    by (simp add: grub_defs extract_defs space_defs)
  have a: "Initrd ?eu = concat (map (\<lambda>v. fst (loadKeyValue ?u v))
                          (key_values ''initrd'' (Lines (fst (ReadFile ?u ''entry.conf'')))))"
    using initrd_concatenated_in_order
            [where fsys = ?u and path = "''entry.conf''" and e = ?eu and err = None] u
    by blast
  have b: "Initrd ?eg = concat (map (\<lambda>p. fst (loadKeyValue ?g p))
                           (concat (map initrd_paths (grub_body_lines (fst (ReadFile ?g ''grub.cfg''))))))"
    using initrd_concatenated_in_order
            [where fsys = ?g and gpath = "''grub.cfg''" and ge = ?eg and gerr = None] g
    by blast
  from a have a': "concat (map (\<lambda>v. fst (loadKeyValue ?u v))
                          (key_values ''initrd'' (Lines (fst (ReadFile ?u ''entry.conf''))))) = ''AABB''"
    by simp
  from b have b': "concat (map (\<lambda>p. fst (loadKeyValue ?g p))
                           (concat (map initrd_paths (grub_body_lines (fst (ReadFile ?g ''grub.cfg'')))))) = ''AABBCC''"
    by simp
  from u g a' b' show ?thesis by blast
qed

text \<open>
  C8. In the Type 1 parser, when the parse succeeds, \<open>Options\<close> is the concatenation
  of the trimmed values of the \<open>options\<close> lines, in their order, with nothing between
  them: the lines \<open>options foo\<close> and \<open>options bar\<close> give \<open>foobar\<close>.
\<close>

theorem LoadEntry_options_concatenated:
  assumes "LoadEntry fsys path = (Some e, err)"
  shows "Options e = concat (key_values ''options'' (Lines (fst (ReadFile fsys path))))"
proof -
  obtain entry rerr where rf: "ReadFile fsys path = (entry, rerr)" by (cases "ReadFile fsys path")
  with assms have loop: "LoadEntry_loop fsys new_Entry (Lines entry) = Inr e"
    by (auto simp: LoadEntry_def split: option.splits sum.splits)
  from LoadEntry_loop_fields [OF loop] rf show ?thesis
    by (simp add: new_Entry_def)
qed

theorem LoadEntry_options_concatenated_witness:
  "LoadEntry (MapFS [(''entry.conf'', ''options foo\<newline>options bar\<newline>'')]) ''entry.conf''
     = (Some \<lparr>Title = [], Linux = [], Initrd = [], Options = ''foobar'',
              parsed = ''options foo\<newline>options bar\<newline>'', ignored = []\<rparr>, None)
   \<and> concat (key_values ''options''
         (Lines (fst (ReadFile (MapFS [(''entry.conf'', ''options foo\<newline>options bar\<newline>'')])
                       ''entry.conf'')))) = ''foobar''"
proof -
  let ?fs = "MapFS [(''entry.conf'', ''options foo\<newline>options bar\<newline>'')]"
  have run: "LoadEntry ?fs ''entry.conf''
     = (Some \<lparr>Title = [], Linux = [], Initrd = [], Options = ''foobar'',
              parsed = ''options foo\<newline>options bar\<newline>'', ignored = []\<rparr>, None)"
    by (simp add: uapi_defs space_defs)
  from LoadEntry_options_concatenated [OF run] run show ?thesis by simp
qed

text \<open>
  C9. A file-valued key or field is looked up under its value with every forward
  slash replaced by a backslash: the name requested has no forward slash. Neither
  parser reads the tree under any other name but the path of the entry or
  configuration file itself: two file trees that agree on that path and on all
  names without a forward slash give the same result in both parsers. So a value
  \<open>a/b/c\<close> is read from the name with backslashes, never from the name \<open>a/b/c\<close>.
\<close>

theorem path_translation:
  assumes "\<forall>name. CHR ''/'' \<notin> set name \<longrightarrow> fsys' name = fsys name"
    and "fsys' path = fsys path"
  shows "loadKeyValue fsys v = fsys (map (\<lambda>c. if c = CHR ''/'' then CHR 0x5C else c) v)
       \<and> CHR ''/'' \<notin> set (map (\<lambda>c. if c = CHR ''/'' then CHR 0x5C else c) v)
       \<and> LoadEntry fsys' path = LoadEntry fsys path
       \<and> LoadGrubEntry fsys' path = LoadGrubEntry fsys path"
proof -
  have a: "loadKeyValue fsys v = fsys (map (\<lambda>c. if c = CHR ''/'' then CHR 0x5C else c) v)"
    by (simp add: loadKeyValue_def ReadFile_def ReplaceAll_def)
  have b: "CHR ''/'' \<notin> set (map (\<lambda>c. if c = CHR ''/'' then CHR 0x5C else c) v)"
    by auto
  have c: "LoadEntry fsys' path = LoadEntry fsys path"
    unfolding LoadEntry_def ReadFile_def assms(2) LoadEntry_loop_cong_fun [OF assms(1)]
    by (rule refl)
  have d: "LoadGrubEntry fsys' path = LoadGrubEntry fsys path"
    unfolding LoadGrubEntry_def ReadFile_def assms(2) grub_loop_cong_fun [OF assms(1)]
    by (rule refl)
  from a b c d show ?thesis by blast
qed

theorem path_translation_witness:
  "loadKeyValue (MapFS [([CHR ''a'', CHR 0x5C, CHR ''b'', CHR 0x5C, CHR ''c''], ''K'')]) ''a/b/c''
     = (''K'', None)
   \<and> LoadEntry (MapFS [(''entry.conf'', ''linux a/b/c\<newline>''), (''a/b/c'', ''WRONG''),
                       ([CHR ''a'', CHR 0x5C, CHR ''b'', CHR 0x5C, CHR ''c''], ''K'')]) ''entry.conf''
     = LoadEntry (MapFS [(''entry.conf'', ''linux a/b/c\<newline>''),
                         ([CHR ''a'', CHR 0x5C, CHR ''b'', CHR 0x5C, CHR ''c''], ''K'')]) ''entry.conf''
   \<and> LoadEntry (MapFS [(''entry.conf'', ''linux a/b/c\<newline>''),
                       ([CHR ''a'', CHR 0x5C, CHR ''b'', CHR 0x5C, CHR ''c''], ''K'')]) ''entry.conf''
     = (Some \<lparr>Title = [], Linux = ''K'', Initrd = [], Options = [],
              parsed = ''linux a/b/c\<newline>'', ignored = []\<rparr>, None)
   \<and> LoadGrubEntry (MapFS [(''grub.cfg'', ''menuentry 'A' {\<newline> initrd a/b/c\<newline>}\<newline>''),
                           (''a/b/c'', ''WRONG''),
                           ([CHR ''a'', CHR 0x5C, CHR ''b'', CHR 0x5C, CHR ''c''], ''K'')]) ''grub.cfg''
     = LoadGrubEntry (MapFS [(''grub.cfg'', ''menuentry 'A' {\<newline> initrd a/b/c\<newline>}\<newline>''),
                             ([CHR ''a'', CHR 0x5C, CHR ''b'', CHR 0x5C, CHR ''c''], ''K'')]) ''grub.cfg''
   \<and> LoadGrubEntry (MapFS [(''grub.cfg'', ''menuentry 'A' {\<newline> initrd a/b/c\<newline>}\<newline>''),
                           ([CHR ''a'', CHR 0x5C, CHR ''b'', CHR 0x5C, CHR ''c''], ''K'')]) ''grub.cfg''
     = Return (Some \<lparr>Title = ''A'', Linux = [], Initrd = ''K'', Options = [],
                     parsed = ''initrd a/b/c\<newline>'', ignored = []\<rparr>, None)"
proof -
  let ?n = "[CHR ''a'', CHR 0x5C, CHR ''b'', CHR 0x5C, CHR ''c'']"
  let ?u = "MapFS [(''entry.conf'', ''linux a/b/c\<newline>''), (?n, ''K'')]"
  let ?u' = "MapFS [(''entry.conf'', ''linux a/b/c\<newline>''), (''a/b/c'', ''WRONG''), (?n, ''K'')]"
  let ?g = "MapFS [(''grub.cfg'', ''menuentry 'A' {\<newline> initrd a/b/c\<newline>}\<newline>''), (?n, ''K'')]"
  let ?g' = "MapFS [(''grub.cfg'', ''menuentry 'A' {\<newline> initrd a/b/c\<newline>}\<newline>''),
                    (''a/b/c'', ''WRONG''), (?n, ''K'')]"
  have hu: "\<forall>name. CHR ''/'' \<notin> set name \<longrightarrow> ?u' name = ?u name"
    by (auto simp: MapFS_def)
  have pu: "?u' ''entry.conf'' = ?u ''entry.conf''"
    by (simp add: MapFS_def)
  have hg: "\<forall>name. CHR ''/'' \<notin> set name \<longrightarrow> ?g' name = ?g name"
    by (auto simp: MapFS_def)
  have pg: "?g' ''grub.cfg'' = ?g ''grub.cfg''"
    by (simp add: MapFS_def)
  have a: "loadKeyValue (MapFS [(?n, ''K'')]) ''a/b/c'' = (''K'', None)"
    by (simp add: loadKeyValue_def ReplaceAll_def ReadFile_def MapFS_def)
  have b: "LoadEntry ?u' ''entry.conf'' = LoadEntry ?u ''entry.conf''"
    using path_translation [OF hu pu] by blast
  have c: "LoadGrubEntry ?g' ''grub.cfg'' = LoadGrubEntry ?g ''grub.cfg''"
    using path_translation [OF hg pg] by blast
  have d: "LoadEntry ?u ''entry.conf''
     = (Some \<lparr>Title = [], Linux = ''K'', Initrd = [], Options = [],
              parsed = ''linux a/b/c\<newline>'', ignored = []\<rparr>, None)"
    by (simp add: uapi_defs space_defs)
  have e: "LoadGrubEntry ?g ''grub.cfg''
     = Return (Some \<lparr>Title = ''A'', Linux = [], Initrd = ''K'', Options = [],
                     parsed = ''initrd a/b/c\<newline>'', ignored = []\<rparr>, None)"
    by (simp add: grub_defs extract_defs space_defs)
  from a b c d e show ?thesis by blast
qed

text \<open>
  C10. When a line matches the start of a menuentry while the extractor is not
  collecting, and after no later line of the text the depth is 0, the block that
  starts there is discarded: the extractor returns the blocks completed before that
  line and no error, and the text from that line to the end of the input is not
  among the blocks returned.
\<close>

theorem unterminated_block_discarded:
  assumes "Split data (CHR 0x0A) = pre @ line # post"
    and "\<not> collecting (extract_loop extract_init pre)"
    and "menuentryStart_MatchString line"
    and "\<forall>k. 0 < k \<and> k \<le> length post \<longrightarrow>
           braceLevel (extract_step (extract_loop extract_init pre) line)
             + brace_delta (take k post) \<noteq> 0"
  shows "ExtractGrubMenuentries data = (entries (extract_loop extract_init pre), None)
       \<and> Join (line # post) [CHR 0x0A] \<notin> set (fst (ExtractGrubMenuentries data))"
proof -
  let ?st = "extract_loop extract_init pre"
  let ?T = "Join (line # post) [CHR 0x0A]"
  from extract_step_opens [OF assms(2,3)]
  have c: "collecting (extract_step ?st line)" and e: "entries (extract_step ?st line) = entries ?st"
    by simp_all
  have "entries (extract_loop (extract_step ?st line) post) = entries (extract_step ?st line)"
    by (rule extract_loop_unterminated [OF c assms(4)])
  with e have res: "ExtractGrubMenuentries data = (entries ?st, None)"
    by (simp add: ExtractGrubMenuentries_def assms(1) extract_loop_append)
  have nl: "\<forall>x \<in> set (pre @ line # post). CHR 0x0A \<notin> set x"
    using Split_no_sep [of _ data "CHR 0x0A"] unfolding assms(1) by blast
  have inv: "extract_inv ?st"
    by (rule extract_loop_inv [OF extract_inv_init]) (use nl in simp)
  have sT: "Split ?T (CHR 0x0A) = line # post"
    by (rule Split_Join) (use nl in simp_all)
  have "?T \<notin> set (entries ?st)"
  proof
    assume "?T \<in> set (entries ?st)"
    from extract_inv_entries [OF inv this] obtain l bs where
      b: "bs \<noteq> []" "Split ?T (CHR 0x0A) = l # bs" "open_depth l + brace_delta bs = 0"
      by blast
    from b(2) have eq: "l = line" "bs = post"
      unfolding sT by simp_all
    from b(1) eq have "0 < length post \<and> length post \<le> length post" by simp
    with assms(4) have "braceLevel (extract_step ?st line) + brace_delta (take (length post) post) \<noteq> 0"
      by blast
    moreover have "braceLevel (extract_step ?st line) = open_depth line"
      unfolding extract_step_open [OF assms(2,3)] by simp
    ultimately show False
      using b(3) eq by simp
  qed
  then show ?thesis
    unfolding res by simp
qed

theorem unterminated_block_discarded_witness:
  "ExtractGrubMenuentries ''menuentry 'A' {\<newline>}\<newline>menuentry 'B' {\<newline> linux /k\<newline>''
     = (entries (extract_loop extract_init [''menuentry 'A' {'', ''}'']), None)
   \<and> entries (extract_loop extract_init [''menuentry 'A' {'', ''}'']) = [''menuentry 'A' {\<newline>}'']
   \<and> Join [''menuentry 'B' {'', '' linux /k'', []] [CHR 0x0A]
       \<notin> set (fst (ExtractGrubMenuentries
                     ''menuentry 'A' {\<newline>}\<newline>menuentry 'B' {\<newline> linux /k\<newline>''))"
proof -
  let ?pre = "[''menuentry 'A' {'', ''}'']"
  let ?post = "['' linux /k'', []]"
  have s: "Split ''menuentry 'A' {\<newline>}\<newline>menuentry 'B' {\<newline> linux /k\<newline>'' (CHR 0x0A)
             = ?pre @ ''menuentry 'B' {'' # ?post"
    by simp
  have pre: "extract_loop extract_init ?pre
               = \<lparr>entries = [''menuentry 'A' {\<newline>}''], collecting = False, braceLevel = 0,
                  current = []\<rparr>"
    by (simp add: extract_defs)
  have c: "\<not> collecting (extract_loop extract_init ?pre)"
    unfolding pre by simp
  have m: "menuentryStart_MatchString ''menuentry 'B' {''"
    by (simp add: extract_defs)
  have lvl: "braceLevel (extract_step (extract_loop extract_init ?pre) ''menuentry 'B' {'') = 1"
    unfolding pre by (simp add: extract_defs)
  have d: "\<forall>k. 0 < k \<and> k \<le> length ?post \<longrightarrow>
             braceLevel (extract_step (extract_loop extract_init ?pre) ''menuentry 'B' {'')
               + brace_delta (take k ?post) \<noteq> 0"
  proof (intro allI impI)
    fix k :: nat
    assume "0 < k \<and> k \<le> length ?post"
    then have "k = 1 \<or> k = 2" by auto
    then show "braceLevel (extract_step (extract_loop extract_init ?pre) ''menuentry 'B' {'')
                 + brace_delta (take k ?post) \<noteq> 0"
      unfolding lvl by (auto simp: brace_delta_def Count_def)
  qed
  note r = unterminated_block_discarded [OF s c m d]
  have e: "entries (extract_loop extract_init ?pre) = [''menuentry 'A' {\<newline>}'']"
    unfolding pre by simp
  from conjunct1 [OF r] e conjunct2 [OF r] show ?thesis
    by (intro conjI)
qed

end
